theory Spec2Isabelle
  imports Main "HOL-Library.Multiset"
begin

section \<open>Data model\<close>

text \<open>
  The analyzer reads JSON objects returned by the hosting platform with \<^verbatim>\<open>dict.get\<close>,
  so every key it looks at may be missing. A field is therefore an option: \<open>None\<close> means
  the key is not in the object. The three textual keys may also carry JSON \<^verbatim>\<open>null\<close>,
  which \<^verbatim>\<open>dict.get\<close> hands on unchanged; \<open>jstr\<close> keeps that case apart from a string.
  Download counts and sizes, where present, are Python integers.
\<close>

datatype jstr = JNull | JStr string

text \<open>An asset object; keys \<^verbatim>\<open>name\<close>, \<^verbatim>\<open>download_count\<close>, \<^verbatim>\<open>size\<close>, \<^verbatim>\<open>content_type\<close>.\<close>

record asset =
  ast_name :: "jstr option"
  ast_download_count :: "int option"
  ast_size :: "int option"
  ast_content_type :: "jstr option"

text \<open>A release object; keys \<^verbatim>\<open>name\<close>, \<^verbatim>\<open>tag_name\<close>, \<^verbatim>\<open>assets\<close>.\<close>

record release =
  rel_name :: "jstr option"
  rel_tag_name :: "jstr option"
  rel_assets :: "asset list option"

text \<open>A repository object; only the key \<^verbatim>\<open>name\<close> is read, by subscript.\<close>

record repo =
  rp_name :: "string option"

text \<open>One row of \<^verbatim>\<open>asset_details\<close>; the key \<^verbatim>\<open>size\<close> is the field \<open>size_bytes\<close>.\<close>

record asset_detail =
  release_name :: jstr
  asset_name :: jstr
  downloads :: int
  size_bytes :: int
  content_type :: jstr

text \<open>
  The dictionary returned by \<^verbatim>\<open>analyze_downloads\<close> and the dictionary \<^verbatim>\<open>total_stats\<close> of
  \<^verbatim>\<open>run_analysis\<close> share four integer keys.
\<close>

record counters =
  total_downloads :: int
  total_assets :: int
  releases_with_downloads :: int
  total_releases :: int

record analysis = counters +
  asset_details :: "asset_detail list"

record total_stats = counters +
  repos_with_releases :: int

datatype py_error = KeyError

text \<open>\<^verbatim>\<open>d.get(key, default)\<close> on a field.\<close>

definition dict_get :: "'v option \<Rightarrow> 'v \<Rightarrow> 'v" where
  "dict_get field dflt = (case field of Some v \<Rightarrow> v | None \<Rightarrow> dflt)"

section \<open>The remote listing API\<close>

text \<open>
  A request is the URL and the query parameters handed to \<^verbatim>\<open>requests.get\<close>. The three
  calls inside each \<^verbatim>\<open>try\<close> block (\<^verbatim>\<open>requests.get\<close>, \<^verbatim>\<open>raise_for_status\<close>, \<^verbatim>\<open>json\<close>) have one of
  two outcomes: a \<^verbatim>\<open>RequestException\<close> with its message (a transport failure, or the
  \<^verbatim>\<open>HTTPError\<close> raised for an error status), or the decoded JSON array. The platform is a
  pair of such functions, one per listing endpoint. Everything the program does to the
  outside is recorded, in order, as a list of events: the requests it sends and the
  error lines the two fetchers print on the console. Banners, the progress spinner,
  panels and tables are rendering and are left out.
\<close>

record request =
  req_url :: string
  req_page :: int
  req_per_page :: int
  req_type :: "string option"

datatype 'a response = RequestException string | Json "'a list"

record github =
  list_repos :: "request \<Rightarrow> repo response"
  list_releases :: "request \<Rightarrow> release response"

datatype event = Request request | Print string

definition api_base :: string where
  "api_base = ''https://api.github.com''"

section \<open>Paginated fetchers\<close>

definition repos_request :: "string \<Rightarrow> int \<Rightarrow> request" where
  "repos_request username page =
     \<lparr>req_url = api_base @ ''/users/'' @ username @ ''/repos'',
      req_page = page, req_per_page = 100, req_type = Some ''owner''\<rparr>"

definition releases_request :: "string \<Rightarrow> string \<Rightarrow> int \<Rightarrow> request" where
  "releases_request username repo_name page =
     \<lparr>req_url = api_base @ ''/repos/'' @ username @ ''/'' @ repo_name @ ''/releases'',
      req_page = page, req_per_page = 100, req_type = None\<rparr>"

text \<open>
  The \<^verbatim>\<open>while True\<close> loop of \<^verbatim>\<open>get_user_repos\<close>, with its variables \<^verbatim>\<open>repos\<close> and \<^verbatim>\<open>page\<close> and
  the events so far. The loop has no bound; a run that never ends is \<open>None\<close>.
\<close>

partial_function (option) get_user_repos_loop ::
  "github \<Rightarrow> string \<Rightarrow> repo list \<Rightarrow> int \<Rightarrow> event list \<Rightarrow> (repo list \<times> event list) option"
where
  "get_user_repos_loop api username repos page out =
     (case list_repos api (repos_request username page) of
        Json page_repos \<Rightarrow>
          if page_repos = [] then Some (repos, out @ [Request (repos_request username page)])
          else get_user_repos_loop api username (repos @ page_repos) (page + 1)
                 (out @ [Request (repos_request username page)])
      | RequestException e \<Rightarrow>
          Some (repos, out @ [Request (repos_request username page),
                  Print (''[red]Error fetching repositories: '' @ e @ ''[/red]'')]))"

definition get_user_repos :: "github \<Rightarrow> string \<Rightarrow> (repo list \<times> event list) option" where
  "get_user_repos api username = get_user_repos_loop api username [] 1 []"

text \<open>The \<^verbatim>\<open>while True\<close> loop of \<^verbatim>\<open>get_repo_releases\<close>.\<close>

partial_function (option) get_repo_releases_loop ::
  "github \<Rightarrow> string \<Rightarrow> string \<Rightarrow> release list \<Rightarrow> int \<Rightarrow> event list
     \<Rightarrow> (release list \<times> event list) option"
where
  "get_repo_releases_loop api username repo_name releases page out =
     (case list_releases api (releases_request username repo_name page) of
        Json page_releases \<Rightarrow>
          if page_releases = []
          then Some (releases, out @ [Request (releases_request username repo_name page)])
          else get_repo_releases_loop api username repo_name (releases @ page_releases)
                 (page + 1) (out @ [Request (releases_request username repo_name page)])
      | RequestException e \<Rightarrow>
          Some (releases, out @ [Request (releases_request username repo_name page),
                  Print (''[red]Error fetching releases for '' @ repo_name @ '': '' @ e
                         @ ''[/red]'')]))"

definition get_repo_releases ::
  "github \<Rightarrow> string \<Rightarrow> string \<Rightarrow> (release list \<times> event list) option" where
  "get_repo_releases api username repo_name =
     get_repo_releases_loop api username repo_name [] 1 []"

section \<open>Release aggregation\<close>

text \<open>
  The inner loop of \<^verbatim>\<open>analyze_downloads\<close> over the assets of one release. It updates
  \<^verbatim>\<open>release_downloads\<close>, \<^verbatim>\<open>total_downloads\<close> and \<^verbatim>\<open>asset_details\<close>; the primed names are these
  variables.
\<close>

fun assets_loop ::
  "release \<Rightarrow> asset list \<Rightarrow> int \<times> int \<times> asset_detail list \<Rightarrow> int \<times> int \<times> asset_detail list"
where
  "assets_loop release [] vars = vars"
| "assets_loop release (asset # rest) (release_downloads, total_downloads', asset_details') =
     (let download_count = dict_get (ast_download_count asset) 0
      in assets_loop release rest
           (release_downloads + download_count,
            total_downloads' + download_count,
            asset_details' @
              [\<lparr>release_name =
                  dict_get (rel_name release) (dict_get (rel_tag_name release) (JStr ''Unknown'')),
                asset_name = dict_get (ast_name asset) (JStr ''Unknown''),
                downloads = download_count,
                size_bytes = dict_get (ast_size asset) 0,
                content_type = dict_get (ast_content_type asset) (JStr ''Unknown'')\<rparr>]))"

text \<open>The outer loop over the releases, with the four accumulators of the function.\<close>

fun releases_loop ::
  "release list \<Rightarrow> int \<times> int \<times> int \<times> asset_detail list \<Rightarrow> int \<times> int \<times> int \<times> asset_detail list"
where
  "releases_loop [] vars = vars"
| "releases_loop (release # rest)
     (total_downloads', total_assets', releases_with_downloads', asset_details') =
     (let release_assets = int (length (dict_get (rel_assets release) []));
          (release_downloads, total_downloads'', asset_details'') =
             assets_loop release (dict_get (rel_assets release) [])
               (0, total_downloads', asset_details')
      in releases_loop rest
           (total_downloads'',
            total_assets' + release_assets,
            (if release_downloads > 0 then releases_with_downloads' + 1
             else releases_with_downloads'),
            asset_details''))"

definition analyze_downloads :: "release list \<Rightarrow> analysis" where
  "analyze_downloads releases =
     (let (total_downloads', total_assets', releases_with_downloads', asset_details') =
            releases_loop releases (0, 0, 0, [])
      in \<lparr>total_downloads = total_downloads',
          total_assets = total_assets',
          releases_with_downloads = releases_with_downloads',
          total_releases = int (length releases),
          asset_details = asset_details'\<rparr>)"

section \<open>Repository scan\<close>

text \<open>
  Python's \<^verbatim>\<open>list.sort(key=..., reverse=True)\<close>: the list is reversed, sorted by a stable
  ascending sort, and reversed again. A stable sort has one possible result, so the
  insertion sort \<open>sort_key\<close> stands for the built-in one.
\<close>

definition sort_reverse :: "('a \<Rightarrow> 'k::linorder) \<Rightarrow> 'a list \<Rightarrow> 'a list" where
  "sort_reverse key xs = rev (sort_key key (rev xs))"

text \<open>
  The \<^verbatim>\<open>for repo in repos\<close> loop of \<^verbatim>\<open>run_analysis\<close>, with \<^verbatim>\<open>total_stats\<close> and the list
  \<^verbatim>\<open>repos_with_releases\<close> (primed here: the dictionary has a key of the same name).
  \<^verbatim>\<open>repo["name"]\<close> raises \<^verbatim>\<open>KeyError\<close> when the key is missing, which leaves the function.
\<close>

fun run_analysis_loop ::
  "github \<Rightarrow> string \<Rightarrow> repo list \<Rightarrow> total_stats \<times> (string \<times> analysis) list \<Rightarrow> event list
     \<Rightarrow> ((py_error + total_stats \<times> (string \<times> analysis) list) \<times> event list) option"
where
  "run_analysis_loop api username [] vars out = Some (Inr vars, out)"
| "run_analysis_loop api username (repo # rest) (total_stats, repos_with_releases') out =
     (case rp_name repo of
        None \<Rightarrow> Some (Inl KeyError, out)
      | Some repo_name \<Rightarrow>
          (case get_repo_releases api username repo_name of
             None \<Rightarrow> None
           | Some (releases, out') \<Rightarrow>
               if releases \<noteq> [] then
                 (let analysis = analyze_downloads releases
                  in run_analysis_loop api username rest
                       (total_stats
                          \<lparr>total_downloads := total_downloads total_stats + total_downloads analysis,
                           total_assets := total_assets total_stats + total_assets analysis,
                           releases_with_downloads :=
                             releases_with_downloads total_stats
                               + releases_with_downloads analysis,
                           total_releases := total_releases total_stats + total_releases analysis,
                           repos_with_releases := repos_with_releases total_stats + 1\<rparr>,
                        repos_with_releases' @ [(repo_name, analysis)])
                       (out @ out'))
               else run_analysis_loop api username rest (total_stats, repos_with_releases')
                      (out @ out')))"

text \<open>
  What \<^verbatim>\<open>run_analysis\<close> ends with: it returns early when no repository was fetched;
  otherwise it holds \<^verbatim>\<open>total_stats\<close> and the sorted list whose entries go to
  \<^verbatim>\<open>display_results\<close> one after the other.
\<close>

datatype report = No_repositories | Report total_stats "(string \<times> analysis) list"

definition run_analysis ::
  "github \<Rightarrow> string \<Rightarrow> ((py_error + report) \<times> event list) option" where
  "run_analysis api username =
     (case get_user_repos api username of
        None \<Rightarrow> None
      | Some (repos, out) \<Rightarrow>
          if repos = [] then Some (Inr No_repositories, out)
          else
            (case run_analysis_loop api username repos
                    (\<lparr>total_downloads = 0, total_assets = 0, releases_with_downloads = 0,
                      total_releases = 0, repos_with_releases = 0\<rparr>, []) out of
               None \<Rightarrow> None
             | Some (Inl err, out') \<Rightarrow> Some (Inl err, out')
             | Some (Inr (total_stats, repos_with_releases'), out') \<Rightarrow>
                 Some (Inr (Report total_stats
                         (sort_reverse (\<lambda>x. total_downloads (snd x)) repos_with_releases')),
                       out')))"

declare get_user_repos_loop.simps [code]
declare get_repo_releases_loop.simps [code]

section \<open>The specification's vocabulary\<close>

text \<open>
  The definitions of this section are written from the specification's wording, not
  from the code; the theorems below relate the code to them.
\<close>

text \<open>The assets of a release, none when the key is missing.\<close>

definition assets_of :: "release \<Rightarrow> asset list" where
  "assets_of release = (case rel_assets release of Some assets \<Rightarrow> assets | None \<Rightarrow> [])"

text \<open>An asset's download count, a missing field counting as 0.\<close>

definition download_count_of :: "asset \<Rightarrow> int" where
  "download_count_of asset = (case ast_download_count asset of Some n \<Rightarrow> n | None \<Rightarrow> 0)"

text \<open>The specification's \<^verbatim>\<open>release_downloads\<close>: the sum of a release's asset download counts.\<close>

definition release_downloads_of :: "release \<Rightarrow> int" where
  "release_downloads_of release = sum_list (map download_count_of (assets_of release))"

text \<open>
  The resolved release display name: the name field; if absent, the tag identifier; if
  that is absent too, the literal \<^verbatim>\<open>Unknown\<close>.
\<close>

definition display_name :: "release \<Rightarrow> jstr" where
  "display_name release =
     (case rel_name release of
        Some n \<Rightarrow> n
      | None \<Rightarrow> (case rel_tag_name release of Some t \<Rightarrow> t | None \<Rightarrow> JStr ''Unknown''))"

text \<open>The detail record of one asset of a release.\<close>

definition detail_row :: "release \<Rightarrow> asset \<Rightarrow> asset_detail" where
  "detail_row release asset =
     \<lparr>release_name = display_name release,
      asset_name = (case ast_name asset of Some n \<Rightarrow> n | None \<Rightarrow> JStr ''Unknown''),
      downloads = download_count_of asset,
      size_bytes = (case ast_size asset of Some n \<Rightarrow> n | None \<Rightarrow> 0),
      content_type = (case ast_content_type asset of Some c \<Rightarrow> c | None \<Rightarrow> JStr ''Unknown'')\<rparr>"

section \<open>The aggregation loops in closed form\<close>

lemma assets_loop_eq:
  "assets_loop release assets (rd, td, ad) =
     (rd + sum_list (map download_count_of assets),
      td + sum_list (map download_count_of assets),
      ad @ map (detail_row release) assets)"
proof (induction assets arbitrary: rd td ad)
  case Nil
  show ?case by simp
next
  case (Cons a assets)
  show ?case
    by (simp add: Cons.IH Let_def dict_get_def download_count_of_def detail_row_def
        display_name_def split: option.splits)
qed

lemma releases_loop_eq:
  "releases_loop releases (td, ta, rwd, ad) =
     (td + sum_list (map release_downloads_of releases),
      ta + sum_list (map (\<lambda>r. int (length (assets_of r))) releases),
      rwd + int (length (filter (\<lambda>r. 0 < release_downloads_of r) releases)),
      ad @ concat (map (\<lambda>r. map (detail_row r) (assets_of r)) releases))"
proof (induction releases arbitrary: td ta rwd ad)
  case Nil
  show ?case by simp
next
  case (Cons r releases)
  have a: "dict_get (rel_assets r) [] = assets_of r"
    by (simp add: dict_get_def assets_of_def)
  show ?case
    by (simp add: a assets_loop_eq Cons.IH release_downloads_of_def)
qed

lemma analyze_downloads_eq:
  "analyze_downloads releases =
     \<lparr>total_downloads = sum_list (map release_downloads_of releases),
      total_assets = sum_list (map (\<lambda>r. int (length (assets_of r))) releases),
      releases_with_downloads =
        int (length (filter (\<lambda>r. 0 < release_downloads_of r) releases)),
      total_releases = int (length releases),
      asset_details = concat (map (\<lambda>r. map (detail_row r) (assets_of r)) releases)\<rparr>"
  by (simp add: analyze_downloads_def releases_loop_eq)

lemma length_details:
  "int (length (concat (map (\<lambda>r. map (detail_row r) (assets_of r)) releases))) =
     sum_list (map (\<lambda>r. int (length (assets_of r))) releases)"
  by (induction releases) simp_all

lemma downloads_details:
  "sum_list (map downloads (concat (map (\<lambda>r. map (detail_row r) (assets_of r)) releases))) =
     sum_list (map release_downloads_of releases)"
proof (induction releases)
  case Nil
  show ?case by simp
next
  case (Cons r releases)
  have "downloads \<circ> detail_row r = download_count_of"
    by (simp add: fun_eq_iff detail_row_def)
  with Cons.IH show ?case
    by (simp add: release_downloads_of_def)
qed

lemma names_details:
  "map release_name (concat (map (\<lambda>r. map (detail_row r) (assets_of r)) releases)) =
     concat (map (\<lambda>r. replicate (length (assets_of r)) (display_name r)) releases)"
proof (induction releases)
  case Nil
  show ?case by simp
next
  case (Cons r releases)
  have "release_name \<circ> detail_row r = (\<lambda>asset. display_name r)"
    by (simp add: fun_eq_iff detail_row_def)
  with Cons.IH show ?case
    by (simp add: map_replicate_const)
qed

lemma positive_downloads_has_asset:
  "0 < release_downloads_of r \<Longrightarrow> 1 \<le> int (length (assets_of r))"
  by (cases "assets_of r") (simp_all add: release_downloads_of_def)

lemma counted_le_assets:
  "int (length (filter (\<lambda>r. 0 < release_downloads_of r) releases)) \<le>
     sum_list (map (\<lambda>r. int (length (assets_of r))) releases)"
proof (induction releases)
  case Nil
  show ?case by simp
next
  case (Cons r releases)
  show ?case
  proof (cases "0 < release_downloads_of r")
    case True
    from positive_downloads_has_asset [OF True] Cons.IH show ?thesis by simp
  next
    case False
    with Cons.IH show ?thesis by simp
  qed
qed

section \<open>Properties of the release aggregator\<close>

text \<open>
  C4. For every sequence of releases, \<^verbatim>\<open>releases_with_downloads\<close> is the number of releases
  whose summed asset download counts are strictly positive. A release whose downloads
  sum to exactly zero, anywhere in the sequence, adds nothing to the counter, whether
  or not it has assets.
\<close>

theorem releases_with_downloads_strictly_positive:
  "releases_with_downloads (analyze_downloads releases) =
     int (length (filter (\<lambda>release. 0 < release_downloads_of release) releases))
   \<and> (release_downloads_of release = 0 \<longrightarrow>
        releases_with_downloads (analyze_downloads (before @ release # after)) =
        releases_with_downloads (analyze_downloads (before @ after)))"
  by (simp add: analyze_downloads_eq)

theorem releases_with_downloads_strictly_positive_witness:
  "release_downloads_of
     \<lparr>rel_name = Some (JStr ''v1''), rel_tag_name = None,
      rel_assets = Some [\<lparr>ast_name = Some (JStr ''a.zip''), ast_download_count = Some 0,
                          ast_size = Some 5, ast_content_type = None\<rparr>]\<rparr> = 0
   \<and> releases_with_downloads (analyze_downloads
       [\<lparr>rel_name = Some (JStr ''v1''), rel_tag_name = None,
         rel_assets = Some [\<lparr>ast_name = Some (JStr ''a.zip''), ast_download_count = Some 0,
                             ast_size = Some 5, ast_content_type = None\<rparr>]\<rparr>]) = 0
   \<and> total_assets (analyze_downloads
       [\<lparr>rel_name = Some (JStr ''v1''), rel_tag_name = None,
         rel_assets = Some [\<lparr>ast_name = Some (JStr ''a.zip''), ast_download_count = Some 0,
                             ast_size = Some 5, ast_content_type = None\<rparr>]\<rparr>]) = 1"
proof -
  let ?r = "\<lparr>rel_name = Some (JStr ''v1''), rel_tag_name = None,
      rel_assets = Some [\<lparr>ast_name = Some (JStr ''a.zip''), ast_download_count = Some 0,
                          ast_size = Some 5, ast_content_type = None\<rparr>]\<rparr>"
  have z: "release_downloads_of ?r = 0"
    by (simp add: release_downloads_of_def assets_of_def download_count_of_def)
  have e: "releases_with_downloads (analyze_downloads []) = 0"
    by (simp add: analyze_downloads_def)
  have a: "total_assets (analyze_downloads [?r]) = 1"
    by (simp add: analyze_downloads_def dict_get_def)
  from releases_with_downloads_strictly_positive [of "[?r]" ?r "[]" "[]"] z e a
  show ?thesis by simp
qed

text \<open>
  C5. For every sequence of releases, \<^verbatim>\<open>total_assets\<close> is the sum of the lengths of the
  releases' asset lists, whatever the download counts are, and \<^verbatim>\<open>asset_details\<close> has
  exactly \<^verbatim>\<open>total_assets\<close> rows.
\<close>

theorem total_assets_is_number_of_assets:
  "total_assets (analyze_downloads releases) =
     sum_list (map (\<lambda>release. int (length (assets_of release))) releases)
   \<and> int (length (asset_details (analyze_downloads releases))) =
     total_assets (analyze_downloads releases)"
  by (simp only: analyze_downloads_eq length_details analysis.simps counters.simps simp_thms)

text \<open>
  C6. The release name on the detail rows is the resolved display name of the release
  each row comes from, once per asset and in order: the name field, else the tag
  identifier, else \<^verbatim>\<open>Unknown\<close>. A release with neither field puts \<^verbatim>\<open>Unknown\<close> on every one
  of its rows.
\<close>

theorem release_name_resolution:
  "map release_name (asset_details (analyze_downloads releases)) =
     concat (map (\<lambda>release. replicate (length (assets_of release)) (display_name release))
               releases)
   \<and> (rel_name release = None \<and> rel_tag_name release = None \<longrightarrow>
        map release_name (asset_details (analyze_downloads [release])) =
        replicate (length (assets_of release)) (JStr ''Unknown''))"
proof -
  have every_row:
    "map release_name (asset_details (analyze_downloads releases)) =
       concat (map (\<lambda>release. replicate (length (assets_of release)) (display_name release))
                 releases)"
    by (simp add: analyze_downloads_eq names_details)
  have unknown:
    "rel_name release = None \<and> rel_tag_name release = None \<longrightarrow>
       map release_name (asset_details (analyze_downloads [release])) =
       replicate (length (assets_of release)) (JStr ''Unknown'')"
    using names_details [of "[release]"]
    by (simp add: analyze_downloads_eq display_name_def)
  from every_row unknown show ?thesis by (rule conjI)
qed

theorem release_name_resolution_witness:
  "map release_name (asset_details (analyze_downloads
     [\<lparr>rel_name = None, rel_tag_name = None,
       rel_assets = Some [\<lparr>ast_name = Some (JStr ''a.zip''), ast_download_count = Some 3,
                           ast_size = None, ast_content_type = None\<rparr>,
                          \<lparr>ast_name = None, ast_download_count = None,
                           ast_size = None, ast_content_type = None\<rparr>]\<rparr>])) =
   [JStr ''Unknown'', JStr ''Unknown'']"
  using release_name_resolution
    [of "[]" "\<lparr>rel_name = None, rel_tag_name = None,
       rel_assets = Some [\<lparr>ast_name = Some (JStr ''a.zip''), ast_download_count = Some 3,
                           ast_size = None, ast_content_type = None\<rparr>,
                          \<lparr>ast_name = None, ast_download_count = None,
                           ast_size = None, ast_content_type = None\<rparr>]\<rparr>"]
  by (simp add: assets_of_def)

text \<open>
  C8, as amended. For every sequence of releases, \<^verbatim>\<open>releases_with_downloads\<close> is at most
  \<^verbatim>\<open>total_assets\<close>: a release is counted only when its downloads sum to more than zero,
  and then it has at least one asset.
\<close>

theorem releases_with_downloads_le_total_assets:
  "releases_with_downloads (analyze_downloads releases)
     \<le> total_assets (analyze_downloads releases)"
  by (simp add: analyze_downloads_eq counted_le_assets)

text \<open>
  C8, as stated, is false: no sequence of releases gives \<^verbatim>\<open>total_assets\<close> below
  \<^verbatim>\<open>releases_with_downloads\<close>.
\<close>

theorem total_assets_below_counter_impossible:
  "\<not> (\<exists>releases. total_assets (analyze_downloads releases)
                    < releases_with_downloads (analyze_downloads releases))"
  by (simp add: analyze_downloads_eq counted_le_assets not_less)

text \<open>
  C10. For every sequence of releases, the \<^verbatim>\<open>downloads\<close> fields of the detail rows add up
  to \<^verbatim>\<open>total_downloads\<close>.
\<close>

theorem detail_rows_account_for_total:
  "sum_list (map downloads (asset_details (analyze_downloads releases))) =
     total_downloads (analyze_downloads releases)"
  by (simp add: analyze_downloads_eq downloads_details)

end
